theory Spec2Isabelle
  imports Complex_Main
begin

section \<open>The animated visualizer of the TSP annealing run\<close>

text \<open>
  This theory embeds \<^verbatim>\<open>animateTSP\<close> of \<^verbatim>\<open>src/animated_visualizer.py\<close>:
  the stride \<^verbatim>\<open>key_frames_mult\<close>, the two closures \<^verbatim>\<open>init\<close> and
  \<^verbatim>\<open>update\<close>, and the order in which \<^verbatim>\<open>FuncAnimation\<close> calls them.

  Conventions of the embedding.
  \<^item> A Python float is a \<open>rat\<close>: every finite float is a rational, and the arithmetic of
    the source (\<^verbatim>\<open>min(h) * 0.9\<close>, \<^verbatim>\<open>(max(x) - min(x)) * 0.05\<close>) is taken exactly,
    so that \<^verbatim>\<open>0.9\<close> is \<open>9/10\<close>. Rounding of products, infinities and NaN are outside the model.
  \<^item> A tour is a Python list of Python ints, \<open>int list\<close>; the histories are Python lists.
  \<^item> \<^verbatim>\<open>points\<close> is a two-column numpy array, a list of rows: \<^verbatim>\<open>update\<close> reads it as
    \<^verbatim>\<open>points[i, 0]\<close>, which only an array accepts.
  \<^item> An exception is the \<open>Inl\<close> of a sum; the figure that matplotlib mutates is a record
    passed from call to call.
\<close>

subsection \<open>Values and exceptions\<close>

datatype exn = IndexError | ValueError

type_synonym scalar = rat
type_synonym tour = "int list"
type_synonym ndarray = "(scalar \<times> scalar) list"

text \<open>\<^verbatim>\<open>xs[0]\<close> on a Python list.\<close>

definition first_item :: "'a list \<Rightarrow> exn + 'a" where
  "first_item xs = (case xs of [] \<Rightarrow> Inl IndexError | x # rest \<Rightarrow> Inr x)"

text \<open>
  A row index \<open>i\<close> of an array of \<open>n\<close> rows is accepted when \<open>- n \<le> i < n\<close>; a negative
  one counts from the end.
\<close>

definition in_bounds :: "ndarray \<Rightarrow> int \<Rightarrow> bool" where
  "in_bounds points i = (- int (length points) \<le> i \<and> i < int (length points))"

definition row :: "ndarray \<Rightarrow> int \<Rightarrow> scalar \<times> scalar" where
  "row points i = points ! nat (if i < 0 then i + int (length points) else i)"

definition np_row :: "ndarray \<Rightarrow> int \<Rightarrow> exn + scalar \<times> scalar" where
  "np_row points i = (if in_bounds points i then Inr (row points i) else Inl IndexError)"

text \<open>\<^verbatim>\<open>points[i][0]\<close>, \<^verbatim>\<open>points[i, 0]\<close> and \<^verbatim>\<open>points[i][1]\<close>, \<^verbatim>\<open>points[i, 1]\<close>.\<close>

definition np_x :: "ndarray \<Rightarrow> int \<Rightarrow> exn + scalar" where
  "np_x points i = (case np_row points i of Inl e \<Rightarrow> Inl e | Inr p \<Rightarrow> Inr (fst p))"

definition np_y :: "ndarray \<Rightarrow> int \<Rightarrow> exn + scalar" where
  "np_y points i = (case np_row points i of Inl e \<Rightarrow> Inl e | Inr p \<Rightarrow> Inr (snd p))"

text \<open>A list comprehension whose element expression may raise: the first exception ends it.\<close>

fun comprehension :: "('a \<Rightarrow> exn + 'b) \<Rightarrow> 'a list \<Rightarrow> exn + 'b list" where
  "comprehension f [] = Inr []"
| "comprehension f (a # rest) =
     (case f a of
        Inl e \<Rightarrow> Inl e
      | Inr b \<Rightarrow> (case comprehension f rest of Inl e \<Rightarrow> Inl e | Inr bs \<Rightarrow> Inr (b # bs)))"

text \<open>The builtins \<^verbatim>\<open>min\<close> and \<^verbatim>\<open>max\<close> on a list: ValueError on the empty one.\<close>

definition py_min :: "scalar list \<Rightarrow> exn + scalar" where
  "py_min xs = (case xs of [] \<Rightarrow> Inl ValueError | x # rest \<Rightarrow> Inr (fold min rest x))"

definition py_max :: "scalar list \<Rightarrow> exn + scalar" where
  "py_max xs = (case xs of [] \<Rightarrow> Inl ValueError | x # rest \<Rightarrow> Inr (fold max rest x))"

subsection \<open>Fixed-point formatting\<close>

text \<open>
  \<^verbatim>\<open>f"{v:.6f}"\<close> and \<^verbatim>\<open>f"{v:.2f}"\<close>: the decimal expansion of the exact value, rounded to
  \<open>d\<close> places with ties to even, a minus sign for a negative value.
\<close>

fun dec_digits :: "nat \<Rightarrow> string" where
  "dec_digits n =
     (if n < 10 then [''0123456789'' ! n]
      else dec_digits (n div 10) @ [''0123456789'' ! (n mod 10)])"

declare dec_digits.simps [simp del]

definition round_half_even :: "scalar \<Rightarrow> nat" where
  "round_half_even q =
     (let f = nat \<lfloor>q\<rfloor>; r = q - of_nat f
      in if r < 1 / 2 then f else if 1 / 2 < r then f + 1 else if even f then f else f + 1)"

definition format_fixed :: "nat \<Rightarrow> scalar \<Rightarrow> string" where
  "format_fixed d v =
     (let n = round_half_even (\<bar>v\<bar> * 10 ^ d);
          frac = dec_digits (n mod 10 ^ d)
      in (if v < 0 then ''-'' else [])
         @ dec_digits (n div 10 ^ d)
         @ (if d = 0 then [] else ''.'' @ replicate (d - length frac) CHR ''0'' @ frac))"

subsection \<open>The figure\<close>

text \<open>
  One subplot: its title and labels, its limits (\<open>None\<close> while matplotlib autoscales),
  and the data of the \<^verbatim>\<open>plot\<close> calls whose handle the source drops. The x data of the
  tour panel are coordinates, those of the two traces are iteration numbers.
\<close>

record 'x axes =
  title :: string
  xlabel :: string
  ylabel :: string
  xlim :: "('x \<times> 'x) option"
  ylim :: "(scalar \<times> scalar) option"
  grid :: bool
  legend :: bool
  drawn :: "('x list \<times> scalar list \<times> string) list"

text \<open>
  The figure: the three subplots and the data of the five line handles that
  \<^verbatim>\<open>set_data\<close> writes.
\<close>

record figure =
  ax1 :: "scalar axes"
  ax2 :: "nat axes"
  ax3 :: "nat axes"
  line :: "scalar list \<times> scalar list"
  temp_line :: "nat list \<times> scalar list"
  temp_points :: "nat list \<times> scalar list"
  cost_line :: "nat list \<times> scalar list"
  cost_points :: "nat list \<times> scalar list"

text \<open>A fresh subplot, which is also what \<^verbatim>\<open>ax.clear()\<close> leaves.\<close>

definition cleared :: "'x axes" where
  "cleared = \<lparr>title = [], xlabel = [], ylabel = [], xlim = None, ylim = None,
              grid = False, legend = False, drawn = []\<rparr>"

text \<open>Lines 32 to 51: the figure before \<^verbatim>\<open>init\<close> runs.\<close>

definition subplots :: figure where
  "subplots =
     \<lparr>ax1 = cleared\<lparr>title := ''TSP Path''\<rparr>,
      ax2 = cleared\<lparr>title := ''Temperature'', xlabel := ''Iteration'', ylabel := ''Temperature''\<rparr>,
      ax3 = cleared\<lparr>title := ''Cost Function'', xlabel := ''Iteration'', ylabel := ''Cost''\<rparr>,
      line = ([], []), temp_line = ([], []), temp_points = ([], []),
      cost_line = ([], []), cost_points = ([], [])\<rparr>"

subsection \<open>Frame sampling\<close>

text \<open>Line 29: \<^verbatim>\<open>key_frames_mult = max(1, len(history) // 9000)\<close>.\<close>

definition key_frames_mult :: "tour list \<Rightarrow> nat" where
  "key_frames_mult history = max 1 (length history div 9000)"

text \<open>
  \<^verbatim>\<open>range(0, stop, step)\<close> for a positive step: the multiples of the step below
  \<open>stop\<close>. Its one call passes \<open>key_frames_mult\<close>, which is never 0.
\<close>

definition py_range :: "nat \<Rightarrow> nat \<Rightarrow> nat list" where
  "py_range stop step = map (\<lambda>k. k * step) [0 ..< (stop + step - 1) div step]"

text \<open>Line 148: the frames handed to \<^verbatim>\<open>FuncAnimation\<close>.\<close>

definition frames :: "tour list \<Rightarrow> nat list" where
  "frames history = py_range (length history) (key_frames_mult history)"

text \<open>Line 90: \<^verbatim>\<open>actual_frame = frame * key_frames_mult\<close>.\<close>

definition actual_frame :: "tour list \<Rightarrow> nat \<Rightarrow> nat" where
  "actual_frame history frame = frame * key_frames_mult history"

subsection \<open>Sequencing\<close>

text \<open>Statement after statement: an exception of the first ends the call.\<close>

definition and_then :: "exn + 'a \<Rightarrow> ('a \<Rightarrow> exn + 'b) \<Rightarrow> exn + 'b" where
  "and_then m k = (case m of Inl e \<Rightarrow> Inl e | Inr a \<Rightarrow> k a)"

subsection \<open>The closure init\<close>

text \<open>Lines 61 and 62: \<^verbatim>\<open>(max(v) - min(v)) * 0.05\<close>.\<close>

definition extra :: "scalar list \<Rightarrow> exn + scalar" where
  "extra v =
     and_then (py_max v) (\<lambda>hi.
     and_then (py_min v) (\<lambda>lo.
     Inr ((hi - lo) * (5 / 100))))"

text \<open>Lines 63 and 64: the pair \<^verbatim>\<open>(min(v) - extra_v, max(v) + extra_v)\<close>.\<close>

definition padded :: "scalar list \<Rightarrow> scalar \<Rightarrow> exn + scalar \<times> scalar" where
  "padded v ex =
     and_then (py_min v) (\<lambda>lo.
     and_then (py_max v) (\<lambda>hi.
     Inr (lo - ex, hi + ex)))"

text \<open>
  Lines 56 to 68. The coordinates are those of the points that the first tour names,
  \<^verbatim>\<open>history[0]\<close>, in the order of that tour.
\<close>

definition init_path :: "tour list \<Rightarrow> ndarray \<Rightarrow> figure \<Rightarrow> exn + figure" where
  "init_path history points fig =
     and_then (first_item history) (\<lambda>t0.
     and_then (comprehension (np_x points) t0) (\<lambda>x.
     and_then (comprehension (np_y points) t0) (\<lambda>y.
     and_then (extra x) (\<lambda>extra_x.
     and_then (extra y) (\<lambda>extra_y.
     and_then (padded x extra_x) (\<lambda>xl.
     and_then (padded y extra_y) (\<lambda>yl.
     Inr (fig\<lparr>ax1 := (ax1 fig)\<lparr>drawn := drawn (ax1 fig) @ [(x, y, ''co'')],
                                  xlim := Some xl, ylim := Some yl, legend := True\<rparr>,
               line := ([], [])\<rparr>))))))))"

text \<open>
  Lines 73 and 120, 81 and 140: \<^verbatim>\<open>(min(h) * lo, max(h) * hi)\<close> over the whole history
  \<open>h\<close>, the factors being 0.9 and 1.1 for the temperature, 0.95 and 1.05 for the cost.
\<close>

definition scaled_limits :: "scalar \<Rightarrow> scalar \<Rightarrow> scalar list \<Rightarrow> exn + scalar \<times> scalar" where
  "scaled_limits lo hi h =
     and_then (py_min h) (\<lambda>a.
     and_then (py_max h) (\<lambda>b.
     Inr (a * lo, b * hi)))"

text \<open>Lines 71 to 76.\<close>

definition init_temperature :: "scalar list option \<Rightarrow> figure \<Rightarrow> exn + figure" where
  "init_temperature temp_history fig =
     and_then
       (case temp_history of
          None \<Rightarrow> Inr fig
        | Some th \<Rightarrow>
            if th \<noteq> [] then
              and_then (scaled_limits (9 / 10) (11 / 10) th) (\<lambda>yl.
              Inr (fig\<lparr>ax2 := (ax2 fig)\<lparr>xlim := Some (0, length th), ylim := Some yl,
                                           grid := True\<rparr>\<rparr>))
            else Inr fig)
       (\<lambda>fig'. Inr (fig'\<lparr>temp_line := ([], []), temp_points := ([], [])\<rparr>))"

text \<open>Lines 79 to 84.\<close>

definition init_cost :: "scalar list option \<Rightarrow> figure \<Rightarrow> exn + figure" where
  "init_cost weight_history fig =
     and_then
       (case weight_history of
          None \<Rightarrow> Inr fig
        | Some wh \<Rightarrow>
            if wh \<noteq> [] then
              and_then (scaled_limits (95 / 100) (105 / 100) wh) (\<lambda>yl.
              Inr (fig\<lparr>ax3 := (ax3 fig)\<lparr>xlim := Some (0, length wh), ylim := Some yl,
                                           grid := True\<rparr>\<rparr>))
            else Inr fig)
       (\<lambda>fig'. Inr (fig'\<lparr>cost_line := ([], []), cost_points := ([], [])\<rparr>))"

definition init ::
  "tour list \<Rightarrow> ndarray \<Rightarrow> scalar list option \<Rightarrow> scalar list option \<Rightarrow> figure \<Rightarrow> exn + figure"
where
  "init history points temp_history weight_history fig =
     and_then (init_path history points fig) (\<lambda>fig1.
     and_then (init_temperature temp_history fig1) (\<lambda>fig2.
     init_cost weight_history fig2))"

subsection \<open>The closure update\<close>

text \<open>
  Lines 93 to 100. The iterable \<^verbatim>\<open>history[a] + [history[a][0]]\<close> is built before any
  point is read, once for each of the two comprehensions.
\<close>

definition update_path :: "tour list \<Rightarrow> ndarray \<Rightarrow> nat \<Rightarrow> figure \<Rightarrow> exn + figure" where
  "update_path history points a fig =
     (if a < length history then
        and_then (first_item (history ! a)) (\<lambda>t0.
        and_then (comprehension (np_x points) (history ! a @ [t0])) (\<lambda>x.
        and_then (first_item (history ! a)) (\<lambda>t1.
        and_then (comprehension (np_y points) (history ! a @ [t1])) (\<lambda>y.
        Inr (fig\<lparr>line := (x, y)\<rparr>)))))
      else Inr fig)"

text \<open>
  Lines 103 to 120. \<^verbatim>\<open>ax2.clear()\<close> comes after the two \<^verbatim>\<open>set_data\<close> calls and
  before the panel is drawn again.
\<close>

definition update_temperature :: "scalar list option \<Rightarrow> nat \<Rightarrow> figure \<Rightarrow> exn + figure" where
  "update_temperature temp_history a fig =
     (case temp_history of
        None \<Rightarrow> Inr fig
      | Some th \<Rightarrow>
          if th \<noteq> [] \<and> a < length th then
            (let iterations = [0 ..< a + 1];
                 temps = take (a + 1) th;
                 fig1 = fig\<lparr>temp_line := (iterations, temps), temp_points := ([a], [th ! a])\<rparr>;
                 panel = cleared\<lparr>drawn := [(iterations, temps, ''r-''), ([a], [th ! a], ''ro'')],
                                 title := ''Temperature: '' @ format_fixed 6 (th ! a),
                                 xlabel := ''Iteration'', ylabel := ''Temperature'',
                                 grid := True\<rparr>
             in if 0 < length th then
                  and_then (scaled_limits (9 / 10) (11 / 10) th) (\<lambda>yl.
                  Inr (fig1\<lparr>ax2 := panel\<lparr>xlim := Some (0, length th), ylim := Some yl\<rparr>\<rparr>))
                else Inr (fig1\<lparr>ax2 := panel\<rparr>))
          else Inr fig)"

text \<open>Lines 123 to 140.\<close>

definition update_cost :: "scalar list option \<Rightarrow> nat \<Rightarrow> figure \<Rightarrow> exn + figure" where
  "update_cost weight_history a fig =
     (case weight_history of
        None \<Rightarrow> Inr fig
      | Some wh \<Rightarrow>
          if wh \<noteq> [] \<and> a < length wh then
            (let iterations = [0 ..< a + 1];
                 weights = take (a + 1) wh;
                 fig1 = fig\<lparr>cost_line := (iterations, weights), cost_points := ([a], [wh ! a])\<rparr>;
                 panel = cleared\<lparr>drawn := [(iterations, weights, ''g-''), ([a], [wh ! a], ''go'')],
                                 title := ''Cost: '' @ format_fixed 2 (wh ! a),
                                 xlabel := ''Iteration'', ylabel := ''Cost'',
                                 grid := True\<rparr>
             in if 0 < length wh then
                  and_then (scaled_limits (95 / 100) (105 / 100) wh) (\<lambda>yl.
                  Inr (fig1\<lparr>ax3 := panel\<lparr>xlim := Some (0, length wh), ylim := Some yl\<rparr>\<rparr>))
                else Inr (fig1\<lparr>ax3 := panel\<rparr>))
          else Inr fig)"

definition update ::
  "tour list \<Rightarrow> ndarray \<Rightarrow> scalar list option \<Rightarrow> scalar list option \<Rightarrow> nat \<Rightarrow> figure
   \<Rightarrow> exn + figure"
where
  "update history points temp_history weight_history frame fig =
     (let a = actual_frame history frame
      in and_then (update_path history points a fig) (\<lambda>fig1.
         and_then (update_temperature temp_history a fig1) (\<lambda>fig2.
         update_cost weight_history a fig2)))"

subsection \<open>The driver\<close>

text \<open>
  \<^verbatim>\<open>FuncAnimation\<close> with \<^verbatim>\<open>repeat=False\<close> calls \<^verbatim>\<open>init\<close> once and then
  \<^verbatim>\<open>update\<close> on each frame of the range, in order. A failure records where it happened.
\<close>

datatype failure = AtInit exn | AtFrame nat exn

fun play ::
  "tour list \<Rightarrow> ndarray \<Rightarrow> scalar list option \<Rightarrow> scalar list option \<Rightarrow> nat list \<Rightarrow> figure
   \<Rightarrow> failure + figure"
where
  "play history points temp_history weight_history [] fig = Inr fig"
| "play history points temp_history weight_history (frame # rest) fig =
     (case update history points temp_history weight_history frame fig of
        Inl e \<Rightarrow> Inl (AtFrame frame e)
      | Inr fig' \<Rightarrow> play history points temp_history weight_history rest fig')"

definition animateTSP ::
  "tour list \<Rightarrow> ndarray \<Rightarrow> scalar list option \<Rightarrow> scalar list option \<Rightarrow> failure + figure"
where
  "animateTSP history points temp_history weight_history =
     (case init history points temp_history weight_history subplots of
        Inl e \<Rightarrow> Inl (AtInit e)
      | Inr fig \<Rightarrow> play history points temp_history weight_history (frames history) fig)"

section \<open>Properties\<close>

subsection \<open>The stride\<close>

text \<open>
  C2. For a Tour History of any length \<open>L\<close> the stride is \<open>max 1 (L div 9000)\<close>, hence
  at least 1; for the empty history it is 1 (nothing is divided by zero) and the driver
  enumerates no frame.
\<close>

theorem C2_stride:
  "key_frames_mult history = max 1 (length history div 9000)
   \<and> 1 \<le> key_frames_mult history
   \<and> key_frames_mult [] = 1
   \<and> frames [] = []"
  by (simp add: key_frames_mult_def frames_def py_range_def)

end
